theory Spec2Isabelle
  imports Complex_Main
begin

section \<open>Numbers and failures\<close>

text \<open>
  COSIPY computes with 64-bit floats. A float is idealised here as a real number; the one
  special value the source tests for, not-a-number, is added where data enters from
  outside (instrument data, restart files) and where numpy arithmetic carries it on.
  Signed zeros and the infinities are not represented. A numpy division by zero, whose
  float result is nan or an infinity and which only warns, is recorded as \<open>NaN\<close>.

  Rounding is not represented either, with one exception. Where a quotient is truncated
  to a number of layers, a rounding error in the last place decides between one layer
  more or less: \<open>0.3 / 0.1\<close> is \<open>2.9999999999999996\<close> in float64 and
  \<open>int\<close> makes 2 of it. The initialisation therefore takes the float division as a
  parameter \<open>float_div\<close>, of which nothing is assumed, and uses it for the quotients it
  truncates.
\<close>

datatype fval = NaN | Val real

fun isnan :: "fval \<Rightarrow> bool" where
  "isnan NaN = True"
| "isnan (Val x) = False"

fun np_minimum :: "fval \<Rightarrow> fval \<Rightarrow> fval" where
  "np_minimum (Val x) (Val y) = Val (min x y)"
| "np_minimum a b = NaN"

fun np_add :: "fval \<Rightarrow> fval \<Rightarrow> fval" where
  "np_add (Val x) (Val y) = Val (x + y)"
| "np_add a b = NaN"

fun np_sub :: "fval \<Rightarrow> fval \<Rightarrow> fval" where
  "np_sub (Val x) (Val y) = Val (x - y)"
| "np_sub a b = NaN"

fun np_mul :: "fval \<Rightarrow> fval \<Rightarrow> fval" where
  "np_mul (Val x) (Val y) = Val (x * y)"
| "np_mul a b = NaN"

fun np_div :: "fval \<Rightarrow> fval \<Rightarrow> fval" where
  "np_div (Val x) (Val y) = (if y = 0 then NaN else Val (x / y))"
| "np_div a b = NaN"

fun np_sum :: "fval list \<Rightarrow> fval" where
  "np_sum [] = Val 0"
| "np_sum (v # vs) = np_add v (np_sum vs)"

text \<open>
  What a Python exception or a process exit leaves behind. \<open>NonReal\<close> is not an
  exception: it marks a float result that is no real number (a power of zero with a
  negative exponent, a fractional power of a negative base).
\<close>

datatype error =
    ZeroDivisionError
  | IndexError
  | ValueError string
  | SystemExit int
  | NonReal

definition and_then :: "error + 'a \<Rightarrow> ('a \<Rightarrow> error + 'b) \<Rightarrow> error + 'b" where
  "and_then m f = (case m of Inl e \<Rightarrow> Inl e | Inr x \<Rightarrow> f x)"

text \<open>Python's \<open>int(x)\<close> on a float drops the fractional part (rounds toward zero).\<close>

definition py_int :: "real \<Rightarrow> int" where
  "py_int x = (if 0 \<le> x then \<lfloor>x\<rfloor> else \<lceil>x\<rceil>)"

text \<open>
  A float division that raises on a zero divisor, its quotient idealised as the real one.
\<close>

definition py_div :: "real \<Rightarrow> real \<Rightarrow> error + real" where
  "py_div x y = (if y = 0 then Inl ZeroDivisionError else Inr (x / y))"

text \<open>
  \<open>np.ones(n)\<close> refuses a negative length. \<open>np.zeros(n)\<close> does too, but the source only
  calls it with a length that \<open>np.ones\<close> has accepted just before.
\<close>

definition np_ones :: "int \<Rightarrow> error + real list" where
  "np_ones n = (if n < 0 then Inl (ValueError ''negative dimensions are not allowed'')
                else Inr (replicate (nat n) 1))"

text \<open>\<open>xs[-1]\<close>: the last element, or IndexError on an empty sequence.\<close>

definition py_last :: "'a list \<Rightarrow> error + 'a" where
  "py_last xs = (case xs of [] \<Rightarrow> Inl IndexError | _ # _ \<Rightarrow> Inr (last xs))"

section \<open>Configuration\<close>

text \<open>
  The modules \<open>constants\<close> and \<open>config\<close> are read-only process-wide configuration.
  Every constant the initialisation and albedo code reads is a field; \<open>use_debris\<close> is
  the flag imported from \<open>config\<close>.
\<close>

record constants =
  initial_snowheight_constant :: real
  initial_glacier_height :: real
  initial_glacier_layer_heights :: real
  initial_top_density_snowpack :: real
  initial_bottom_density_snowpack :: real
  temperature_bottom :: real
  ice_density :: real
  zero_temperature :: real
  dt :: real
  snow_ice_threshold :: real
  albedo_method :: string
  albedo_fresh_snow :: real
  albedo_firn :: real
  albedo_ice :: real
  albedo_debris :: real
  albedo_mod_snow_aging :: real
  albedo_mod_snow_depth :: real
  t_star_wet :: real
  t_star_dry :: real
  t_star_K :: real
  t_star_cutoff :: real
  critical_snowpack_thickness :: real
  lejeune_weighting_coefficient :: real
  use_debris :: bool

section \<open>Initialisation (cpkernel/init.py)\<close>

text \<open>
  The forcing record \<open>DATA\<close>: the field \<open>SNOWHEIGHT\<close> may be missing, and
  \<open>T2\<close> is a series of which the first entry is read.
\<close>

record forcing =
  SNOWHEIGHT :: "fval option"
  T2 :: "fval list"

text \<open>
  Modelled from the spec: the class \<open>Grid\<close> is not part of the sources considered; the
  spec describes a grid as per-layer arrays plus three scalar trackers. A grid is
  recorded as the eight arguments its constructor receives, \<open>None\<close> where the caller
  passes none.
\<close>

record grid =
  layer_heights :: "fval list"
  layer_densities :: "fval list"
  layer_temperatures :: "fval list"
  layer_liquid_water_content :: "fval list"
  layer_ice_fraction :: "fval list option"
  arg_new_snow_height :: "fval option"
  arg_new_snow_timestamp :: "fval option"
  arg_old_snow_timestamp :: "fval option"

definition Grid ::
  "fval list \<Rightarrow> fval list \<Rightarrow> fval list \<Rightarrow> fval list \<Rightarrow> fval list option \<Rightarrow>
   fval option \<Rightarrow> fval option \<Rightarrow> fval option \<Rightarrow> grid" where
  "Grid hs ds ts ws ifs nsh nst ost =
     \<lparr>layer_heights = hs, layer_densities = ds, layer_temperatures = ts,
      layer_liquid_water_content = ws, layer_ice_fraction = ifs,
      arg_new_snow_height = nsh, arg_new_snow_timestamp = nst,
      arg_old_snow_timestamp = ost\<rparr>"

text \<open>
  Modelled from the spec: \<open>Grid.total_height\<close> is not part of the sources considered;
  the spec states that the total height equals the sum of the constituent layer
  heights.
\<close>

definition total_height :: "grid \<Rightarrow> fval" where
  "total_height G = np_sum (layer_heights G)"

text \<open>
  A layer counts as snow when its density does not exceed \<open>snow_ice_threshold\<close>, the
  test the albedo module applies to the top layer.
\<close>

definition snow_layer_count :: "constants \<Rightarrow> grid \<Rightarrow> nat" where
  "snow_layer_count c G =
     length (filter (\<lambda>v. case v of NaN \<Rightarrow> False | Val d \<Rightarrow> d \<le> snow_ice_threshold c)
       (layer_densities G))"

text \<open>Lines 15 to 20 of \<open>init_snowpack\<close>: where the initial snow height comes from.\<close>

definition initial_snowheight :: "constants \<Rightarrow> forcing \<Rightarrow> real" where
  "initial_snowheight c DATA =
     (case SNOWHEIGHT DATA of
        Some v \<Rightarrow> (case v of NaN \<Rightarrow> 0.0 | Val x \<Rightarrow> x)
      | None \<Rightarrow> initial_snowheight_constant c)"

text \<open>Line 21: \<open>np.minimum(DATA.T2.values[0], 273.16)\<close>.\<close>

definition temperature_top :: "forcing \<Rightarrow> error + fval" where
  "temperature_top DATA =
     (case T2 DATA of [] \<Rightarrow> Inl IndexError | t # _ \<Rightarrow> Inr (np_minimum t (Val 273.16)))"

text \<open>
  A quotient of two Python floats as the machine computes it: it raises on a zero
  divisor and is the rounded quotient \<open>float_div x y\<close> otherwise.
\<close>

definition float_truediv :: "(real \<Rightarrow> real \<Rightarrow> real) \<Rightarrow> real \<Rightarrow> real \<Rightarrow> error + real" where
  "float_truediv float_div x y = (if y = 0 then Inl ZeroDivisionError else Inr (float_div x y))"

text \<open>
  Lines 32 to 45: the snow section, as heights, densities, temperatures and liquid water.
  The number of layers truncates the float quotient of the snow height and the optimal
  height. The last alternative is the source's silent fall-through, which leaves the
  four lists empty.
\<close>

definition snow_section ::
  "(real \<Rightarrow> real \<Rightarrow> real) \<Rightarrow> constants \<Rightarrow> real \<Rightarrow> fval \<Rightarrow> fval \<Rightarrow>
   real list \<times> real list \<times> fval list \<times> real list" where
  "snow_section float_div c h ttop dT =
     (let optimal_height = 0.1;
          nlayers = py_int (min (float_div h optimal_height) 5)
      in if nlayers = 0 then
           ([h], [initial_top_density_snowpack c], [ttop], [0.0])
         else if nlayers > 0 then
           (let drho = (initial_top_density_snowpack c - initial_bottom_density_snowpack c) / h
            in (map (\<lambda>one. one * (h / real_of_int nlayers)) (replicate (nat nlayers) 1),
                map (\<lambda>i. initial_top_density_snowpack c
                            - drho * (h / real_of_int nlayers) * real_of_int i) [1..nlayers],
                map (\<lambda>i. np_sub ttop
                            (np_mul (np_mul dT (Val (h / real_of_int nlayers)))
                               (Val (real_of_int i)))) [1..nlayers],
                replicate (nat nlayers) 0))
         else ([], [], [], []))"

text \<open>
  Lines 48 and 57: the number of glacier layers truncates the float quotient of two
  Python floats.
\<close>

definition glacier_layer_count :: "(real \<Rightarrow> real \<Rightarrow> real) \<Rightarrow> constants \<Rightarrow> error + int" where
  "glacier_layer_count float_div c =
     and_then
       (float_truediv float_div (initial_glacier_height c) (initial_glacier_layer_heights c))
       (\<lambda>q. Inr (py_int q))"

text \<open>
  \<open>init_snowpack\<close>. In line 51 the comprehension reads \<open>layer_T[-1]\<close> once per glacier
  layer, hence not at all when there is none.
\<close>

definition init_snowpack ::
  "(real \<Rightarrow> real \<Rightarrow> real) \<Rightarrow> constants \<Rightarrow> forcing \<Rightarrow> error + grid" where
  "init_snowpack float_div c DATA =
     (let h = initial_snowheight c DATA in
      and_then (temperature_top DATA) (\<lambda>ttop.
        if h > 0.0 then
          (let dT = np_div (np_sub ttop (Val (temperature_bottom c)))
                      (Val (h + initial_glacier_height c));
               (hs, ds, ts, ws) = snow_section float_div c h ttop dT
           in and_then (glacier_layer_count float_div c) (\<lambda>nlayers.
              and_then (np_ones nlayers) (\<lambda>ones.
              and_then
                (if nlayers < 1 then Inr []
                 else and_then (py_last ts) (\<lambda>tlast.
                        Inr (map (\<lambda>i. np_sub tlast
                                    (np_mul (np_mul dT (Val (initial_glacier_layer_heights c)))
                                       (Val (real_of_int i)))) [1..nlayers])))
                (\<lambda>glacier_T.
                Inr (Grid
                  (map Val (hs @ map (\<lambda>one. one * initial_glacier_layer_heights c) ones))
                  (map Val (ds @ map (\<lambda>one. one * ice_density c) ones))
                  (ts @ glacier_T)
                  (map Val (ws @ replicate (nat nlayers) 0))
                  None None None None)))))
        else
          and_then (glacier_layer_count float_div c) (\<lambda>nlayers.
            (let dT = np_div (np_sub ttop (Val (temperature_bottom c)))
                        (Val (initial_glacier_height c))
             in and_then (np_ones nlayers) (\<lambda>ones.
                  Inr (Grid
                    (map Val (map (\<lambda>one. one * initial_glacier_layer_heights c) ones))
                    (map Val (map (\<lambda>one. one * ice_density c) ones))
                    (map (\<lambda>i. np_sub ttop
                              (np_mul (np_mul dT (Val (initial_glacier_layer_heights c)))
                                 (Val (real_of_int i)))) [1..nlayers])
                    (map Val (replicate (nat nlayers) 0))
                    None None None None))))))"

text \<open>
  The restart record \<open>GRID_RESTART\<close> of \<open>load_snowpack\<close>. The arrays may be longer than
  \<open>NLAYERS\<close> says; the three trackers carry the prefix \<open>restart_\<close> here.
\<close>

record restart =
  NLAYERS :: fval
  LAYER_HEIGHT :: "fval list"
  LAYER_RHO :: "fval list"
  LAYER_T :: "fval list"
  LAYER_LWC :: "fval list"
  LAYER_IF :: "fval list"
  restart_new_snow_height :: fval
  restart_new_snow_timestamp :: fval
  restart_old_snow_timestamp :: fval

text \<open>\<open>int(v)\<close> on a float that may be not-a-number.\<close>

definition py_int_of :: "fval \<Rightarrow> error + int" where
  "py_int_of v =
     (case v of NaN \<Rightarrow> Inl (ValueError ''cannot convert float NaN to integer'')
              | Val x \<Rightarrow> Inr (py_int x))"

text \<open>The slice \<open>xs[0:n]\<close>; a negative \<open>n\<close> counts from the end.\<close>

definition py_slice_to :: "int \<Rightarrow> 'a list \<Rightarrow> 'a list" where
  "py_slice_to n xs =
     (if 0 \<le> n then take (nat n) xs else take (nat (int (length xs) + n)) xs)"

text \<open>
  Modelled from the spec: \<open>Grid.grid_info_screen\<close> is not part of the sources
  considered; the spec has the full grid state emitted for diagnosis. The emission is
  recorded as an event that carries the grid.
\<close>

datatype event = Grid_info_screen grid

text \<open>
  \<open>load_snowpack\<close> yields what was printed and either the grid or how the process ended.
\<close>

definition load_snowpack :: "restart \<Rightarrow> event list \<times> (error + grid)" where
  "load_snowpack GRID_RESTART =
     (case py_int_of (NLAYERS GRID_RESTART) of
        Inl e \<Rightarrow> ([], Inl e)
      | Inr num_layers \<Rightarrow>
          (let layer_heights' = py_slice_to num_layers (LAYER_HEIGHT GRID_RESTART);
               layer_density = py_slice_to num_layers (LAYER_RHO GRID_RESTART);
               layer_T = py_slice_to num_layers (LAYER_T GRID_RESTART);
               layer_LWC = py_slice_to num_layers (LAYER_LWC GRID_RESTART);
               layer_IF = py_slice_to num_layers (LAYER_IF GRID_RESTART);
               GRID = Grid layer_heights' layer_density layer_T layer_LWC (Some layer_IF)
                        (Some (restart_new_snow_height GRID_RESTART))
                        (Some (restart_new_snow_timestamp GRID_RESTART))
                        (Some (restart_old_snow_timestamp GRID_RESTART))
           in if list_ex isnan layer_T
              then ([Grid_info_screen GRID], Inl (SystemExit 1))
              else ([], Inr GRID)))"

section \<open>Surface albedo (modules/albedo.py)\<close>

text \<open>
  Modelled from the spec: the albedo functions reach the grid through five methods of
  \<open>Grid\<close>, none of them part of the sources considered. The mesh is recorded as what
  they return: the
  density and the type tag of the node at index 0, the total snow height, and the three
  fresh-snow trackers of the spec's data model.
\<close>

record glacier_mesh =
  node_density_0 :: real
  node_ntype_0 :: int
  total_snowheight :: real
  new_snow_height :: real
  new_snow_timestamp :: real
  old_snow_timestamp :: real

text \<open>
  Modelled from the spec: \<open>get_fresh_snow_props\<close> exposes the three fresh-snow trackers.
\<close>

definition get_fresh_snow_props :: "glacier_mesh \<Rightarrow> real \<times> real \<times> real" where
  "get_fresh_snow_props GRID =
     (new_snow_height GRID, new_snow_timestamp GRID, old_snow_timestamp GRID)"

text \<open>
  Modelled from the spec: \<open>set_fresh_snow_props_to_old_props\<close> makes the albedo model
  refer to the age of the snow that used to be there: the fresh-snow timestamp takes
  the value of the older snow timestamp.
\<close>

definition set_fresh_snow_props_to_old_props :: "glacier_mesh \<Rightarrow> glacier_mesh" where
  "set_fresh_snow_props_to_old_props GRID =
     GRID\<lparr>new_snow_timestamp := old_snow_timestamp GRID\<rparr>"

text \<open>
  The functions are compiled by numba with its default error model, under which a float
  division by zero raises. A function that changes the mesh returns it.
\<close>

definition get_surface_properties ::
  "constants \<Rightarrow> glacier_mesh \<Rightarrow> (real \<times> real \<times> real) \<times> glacier_mesh" where
  "get_surface_properties c GRID =
     (let (fresh_snow_height, fresh_snow_timestamp, old) = get_fresh_snow_props GRID;
          hours_since_snowfall = fresh_snow_timestamp / 3600.0
      in if hours_since_snowfall < albedo_mod_snow_aging c * 24 \<and> fresh_snow_height \<le> 0.0
         then
           (let GRID' = set_fresh_snow_props_to_old_props GRID;
                (fresh_snow_height', fresh_snow_timestamp', old') = get_fresh_snow_props GRID'
            in ((fresh_snow_height', fresh_snow_timestamp', fresh_snow_timestamp' / 3600.0),
                GRID'))
         else ((fresh_snow_height, fresh_snow_timestamp, hours_since_snowfall), GRID))"

definition get_simple_albedo :: "constants \<Rightarrow> real \<Rightarrow> error + real" where
  "get_simple_albedo c elapsed_time =
     and_then (py_div (- elapsed_time) (albedo_mod_snow_aging c * 24.0)) (\<lambda>q.
       Inr (albedo_firn c + (albedo_fresh_snow c - albedo_firn c) * exp q))"

text \<open>The depth factor \<open>np.exp((-1.0 * h) / (albedo_mod_snow_depth / 100.0))\<close>.\<close>

definition snow_depth_factor :: "constants \<Rightarrow> real \<Rightarrow> error + real" where
  "snow_depth_factor c h =
     and_then (py_div (-1.0 * h) (albedo_mod_snow_depth c / 100.0)) (\<lambda>q. Inr (exp q))"

definition method_Oerlemans :: "constants \<Rightarrow> glacier_mesh \<Rightarrow> (error + real) \<times> glacier_mesh" where
  "method_Oerlemans c GRID =
     (let ((fresh_snow_height, fresh_snow_timestamp, hours_since_snowfall), GRID') =
            get_surface_properties c GRID
      in if node_density_0 GRID' \<le> snow_ice_threshold c then
           (let h = total_snowheight GRID'
            in (and_then (get_simple_albedo c hours_since_snowfall) (\<lambda>alphaSnow.
                and_then (snow_depth_factor c h) (\<lambda>f.
                  Inr (alphaSnow + (albedo_ice c - alphaSnow) * f))), GRID'))
         else (Inr (albedo_ice c), GRID'))"

text \<open>Lines 144 to 160 of \<open>method_Bougamont\<close>: the decay timescale of the snow albedo.\<close>

definition t_star :: "constants \<Rightarrow> real \<Rightarrow> real" where
  "t_star c surface_temperature =
     (if surface_temperature \<ge> zero_temperature c then t_star_wet c
      else if surface_temperature < t_star_cutoff c then
        t_star_dry c + (zero_temperature c - t_star_cutoff c) * t_star_K c
      else
        t_star_dry c + (zero_temperature c - surface_temperature) * t_star_K c)"

definition method_Bougamont ::
  "constants \<Rightarrow> glacier_mesh \<Rightarrow> real \<Rightarrow> real \<Rightarrow> error + real \<times> real" where
  "method_Bougamont c GRID surface_temperature albedo_snow =
     (let (fresh_snow_height, fresh_snow_timestamp, old) = get_fresh_snow_props GRID;
          hours_since_snowfall = fresh_snow_timestamp / 3600.0;
          dt_days = dt c / 86400.0;
          h = total_snowheight GRID
      in if node_density_0 GRID \<le> snow_ice_threshold c then
           and_then (py_div (albedo_snow - albedo_firn c) (t_star c surface_temperature)) (\<lambda>q.
             (let albedo_snow' = albedo_snow - q * dt_days;
                  albedo_snow'' =
                    (if hours_since_snowfall = 0 then albedo_fresh_snow c else albedo_snow')
              in and_then (snow_depth_factor c h) (\<lambda>f.
                   Inr (albedo_snow'' + (albedo_ice c - albedo_snow'') * f, albedo_snow''))))
         else Inr (albedo_ice c, albedo_snow))"

text \<open>
  The float power \<open>x ** y\<close>, where its result is a real number.
\<close>

definition py_pow :: "real \<Rightarrow> real \<Rightarrow> error + real" where
  "py_pow x y =
     (if y = 0 then Inr 1
      else if x = 0 then (if 0 < y then Inr 0 else Inl NonReal)
      else if 0 < x then Inr (x powr y)
      else if y = real_of_int \<lfloor>y\<rfloor> then Inr (x powi \<lfloor>y\<rfloor>)
      else Inl NonReal)"

definition get_albedo_weight_lejeune :: "constants \<Rightarrow> real \<Rightarrow> error + real" where
  "get_albedo_weight_lejeune c snow_depth =
     and_then (py_div snow_depth (critical_snowpack_thickness c)) (\<lambda>r.
     and_then (py_pow r (lejeune_weighting_coefficient c)) (\<lambda>p.
       Inr (min 1.0 p)))"

definition method_lejeune :: "constants \<Rightarrow> glacier_mesh \<Rightarrow> (error + real) \<times> glacier_mesh" where
  "method_lejeune c GRID =
     (if node_ntype_0 GRID = 0 then
        (let ((fresh_snow_height, fresh_snow_timestamp, hours_since_snowfall), GRID') =
               get_surface_properties c GRID
         in (and_then (get_albedo_weight_lejeune c fresh_snow_height) (\<lambda>albedo_weight.
             and_then (get_simple_albedo c hours_since_snowfall) (\<lambda>albedo_snow.
               Inr (albedo_weight * albedo_snow + (1 - albedo_weight) * albedo_debris c))),
             GRID'))
      else (Inr (albedo_debris c), GRID))"

text \<open>The message of the \<open>ValueError\<close> that \<open>updateAlbedo\<close> raises.\<close>

definition albedo_error_message :: "constants \<Rightarrow> string" where
  "albedo_error_message c =
     ''Albedo method = '' @ [CHR 0x22] @ albedo_method c @ [CHR 0x22]
       @ '' is not allowed, must be one of Oerlemans98, Bougamont05, Lejeune13''"

definition updateAlbedo ::
  "constants \<Rightarrow> glacier_mesh \<Rightarrow> real \<Rightarrow> real \<Rightarrow> (error + real \<times> real) \<times> glacier_mesh" where
  "updateAlbedo c GRID surface_temperature albedo_snow =
     (if use_debris c \<or> albedo_method c = ''Lejeune13'' then
        (case method_lejeune c GRID of
           (Inl e, GRID') \<Rightarrow> (Inl e, GRID')
         | (Inr alphaMod, GRID') \<Rightarrow> (Inr (alphaMod, albedo_snow), GRID'))
      else if albedo_method c = ''Oerlemans98'' then
        (case method_Oerlemans c GRID of
           (Inl e, GRID') \<Rightarrow> (Inl e, GRID')
         | (Inr alphaMod, GRID') \<Rightarrow> (Inr (alphaMod, albedo_snow), GRID'))
      else if albedo_method c = ''Bougamont05'' then
        (case method_Bougamont c GRID surface_temperature albedo_snow of
           Inl e \<Rightarrow> (Inl e, GRID)
         | Inr (alphaMod, albedo_snow') \<Rightarrow> (Inr (alphaMod, albedo_snow'), GRID))
      else (Inl (ValueError (albedo_error_message c)), GRID))"

section \<open>The reference for the irreducible water content (tests)\<close>

text \<open>
  \<open>calculate_irreducible_water_content\<close> of \<open>TestNodeGetter\<close>, against which the test
  compares a node's own value.
\<close>

definition calculate_irreducible_water_content :: "real \<Rightarrow> error + real" where
  "calculate_irreducible_water_content current_ice_fraction =
     (if current_ice_fraction \<le> 0.23 then
        and_then (py_div (1 - current_ice_fraction) current_ice_fraction) (\<lambda>q.
          Inr (0.0264 + 0.0099 * q))
      else if current_ice_fraction > 0.23 \<and> current_ice_fraction \<le> 0.812 then
        Inr (0.08 - 0.1023 * (current_ice_fraction - 0.03))
      else Inr 0.0)"

section \<open>Sample configurations and inputs\<close>

text \<open>
  A configuration with the usual COSIPY albedo constants and a shallow glacier of four
  layers, and the inputs at which the theorems below are instantiated.
\<close>

definition sample_constants :: constants where
  "sample_constants =
     \<lparr>initial_snowheight_constant = 0.2,
      initial_glacier_height = 2.0,
      initial_glacier_layer_heights = 0.5,
      initial_top_density_snowpack = 300.0,
      initial_bottom_density_snowpack = 600.0,
      temperature_bottom = 270.16,
      ice_density = 917.0,
      zero_temperature = 273.16,
      dt = 3600,
      snow_ice_threshold = 900.0,
      albedo_method = ''Oerlemans98'',
      albedo_fresh_snow = 0.85,
      albedo_firn = 0.55,
      albedo_ice = 0.3,
      albedo_debris = 0.2,
      albedo_mod_snow_aging = 22,
      albedo_mod_snow_depth = 3,
      t_star_wet = 10,
      t_star_dry = 30,
      t_star_K = 7,
      t_star_cutoff = 263.17,
      critical_snowpack_thickness = 0.05,
      lejeune_weighting_coefficient = 0.5,
      use_debris = False\<rparr>"

text \<open>
  The same configuration with a glacier of height 0.3 in layers of 0.1, and a division
  that agrees with float64 at the quotients taken below: \<open>2.0 / 0.5\<close> and
  \<open>0.2 / 0.1\<close> are exact, whereas \<open>0.3 / 0.1\<close>, taken of the two floats nearest
  to these decimals, rounds to the float just below 3.
\<close>

definition thin_glacier_constants :: constants where
  "thin_glacier_constants =
     sample_constants\<lparr>initial_glacier_height := 0.3, initial_glacier_layer_heights := 0.1\<rparr>"

definition sample_float_div :: "real \<Rightarrow> real \<Rightarrow> real" where
  "sample_float_div x y = (if x = 0.3 \<and> y = 0.1 then 3 - 1 / 2 ^ 51 else x / y)"

definition debris_constants :: constants where
  "debris_constants = sample_constants\<lparr>use_debris := True\<rparr>"

definition misspelt_constants :: constants where
  "misspelt_constants = sample_constants\<lparr>albedo_method := ''Oerlemans''\<rparr>"

definition forcing_without_snowheight :: forcing where
  "forcing_without_snowheight = \<lparr>SNOWHEIGHT = None, T2 = [Val 268.0]\<rparr>"

definition forcing_nan_snowheight :: forcing where
  "forcing_nan_snowheight = \<lparr>SNOWHEIGHT = Some NaN, T2 = [Val 268.0]\<rparr>"

definition forcing_measured_snowheight :: forcing where
  "forcing_measured_snowheight = \<lparr>SNOWHEIGHT = Some (Val 0.35), T2 = [Val 268.0]\<rparr>"

definition forcing_no_snow :: forcing where
  "forcing_no_snow = \<lparr>SNOWHEIGHT = Some (Val 0), T2 = [Val 268.0]\<rparr>"

text \<open>
  Two restart records with two stored slots each. In the first only one layer is in
  use and the unused slot is filled with not-a-number; in the second both layers are in
  use and the temperature of the lower one is not-a-number.
\<close>

definition restart_padded :: restart where
  "restart_padded =
     \<lparr>NLAYERS = Val 1,
      LAYER_HEIGHT = [Val 0.5, NaN],
      LAYER_RHO = [Val 917, NaN],
      LAYER_T = [Val 270, NaN],
      LAYER_LWC = [Val 0, NaN],
      LAYER_IF = [Val 1, NaN],
      restart_new_snow_height = Val 0,
      restart_new_snow_timestamp = Val 0,
      restart_old_snow_timestamp = Val 0\<rparr>"

definition restart_corrupt :: restart where
  "restart_corrupt = restart_padded\<lparr>NLAYERS := Val 2\<rparr>"

text \<open>
  Three meshes: snow on top with snowfall in the current step; the same snow cover after
  its fresh layer has gone (height 0, two hours after the last snowfall); bare ice.
\<close>

definition snow_mesh :: glacier_mesh where
  "snow_mesh =
     \<lparr>node_density_0 = 250, node_ntype_0 = 0, total_snowheight = 0.6,
      new_snow_height = 0.1, new_snow_timestamp = 0, old_snow_timestamp = 7200\<rparr>"

definition consumed_snow_mesh :: glacier_mesh where
  "consumed_snow_mesh =
     \<lparr>node_density_0 = 250, node_ntype_0 = 0, total_snowheight = 0.5,
      new_snow_height = 0, new_snow_timestamp = 7200, old_snow_timestamp = 36000\<rparr>"

definition ice_mesh :: glacier_mesh where
  "ice_mesh =
     \<lparr>node_density_0 = 917, node_ntype_0 = 1, total_snowheight = 0,
      new_snow_height = 0, new_snow_timestamp = 3600000, old_snow_timestamp = 3600000\<rparr>"

text \<open>
  A function is affine on a set when one straight line gives all its values there.
\<close>

definition affine_on :: "(real \<Rightarrow> real) \<Rightarrow> real set \<Rightarrow> bool" where
  "affine_on f S = (\<exists>a b. \<forall>x \<in> S. f x = a * x + b)"

text \<open>The value of a computation that did not fail, and 0 in place of a failure.\<close>

definition value_of :: "error + real \<Rightarrow> real" where
  "value_of r = (case r of Inl e \<Rightarrow> 0 | Inr v \<Rightarrow> v)"

section \<open>Auxiliary facts\<close>

lemma and_then_Inr: "and_then (Inr x) f = f x"
  by (simp add: and_then_def)

lemma py_div_nonzero: "y \<noteq> 0 \<Longrightarrow> py_div x y = Inr (x / y)"
  by (simp add: py_div_def)

lemma np_sum_replicate: "np_sum (replicate n (Val x)) = Val (real n * x)"
  by (induction n) (simp_all add: algebra_simps)

lemma np_ones_nonneg: "0 \<le> n \<Longrightarrow> np_ones n = Inr (replicate (nat n) 1)"
  by (simp add: np_ones_def)

lemma temperature_top_nonempty:
  "T2 DATA \<noteq> [] \<Longrightarrow> temperature_top DATA = Inr (np_minimum (hd (T2 DATA)) (Val 273.16))"
  by (cases "T2 DATA") (simp_all add: temperature_top_def)

lemma filter_replicate_none: "\<not> P x \<Longrightarrow> filter P (replicate n x) = []"
  by (induction n) simp_all

lemma snow_depth_factor_nonzero:
  "albedo_mod_snow_depth c \<noteq> 0 \<Longrightarrow>
   snow_depth_factor c h = Inr (exp (- 1.0 * h / (albedo_mod_snow_depth c / 100.0)))"
  by (simp add: snow_depth_factor_def py_div_def and_then_def)

text \<open>
  With positive timescales, a non-negative slope and a cutoff at or below the melting
  point, the decay timescale is positive at every surface temperature.
\<close>

lemma t_star_positive:
  assumes "0 < t_star_wet c" "0 < t_star_dry c" "0 \<le> t_star_K c"
    and "t_star_cutoff c \<le> zero_temperature c"
  shows "0 < t_star c T"
proof -
  have "0 \<le> (zero_temperature c - t_star_cutoff c) * t_star_K c"
    using assms by simp
  moreover have "T < zero_temperature c \<Longrightarrow> 0 \<le> (zero_temperature c - T) * t_star_K c"
    using assms by simp
  ultimately show ?thesis
    using assms by (auto simp: t_star_def intro: add_pos_nonneg)
qed

lemma sample_t_star_positive: "0 < t_star sample_constants T"
  by (rule t_star_positive) (simp_all add: sample_constants_def)

lemma method_lejeune_ignores_method:
  "method_lejeune (c\<lparr>albedo_method := m\<rparr>) GRID = method_lejeune c GRID"
  by (simp add: method_lejeune_def get_surface_properties_def get_albedo_weight_lejeune_def
        get_simple_albedo_def)

section \<open>Initial snow height\<close>

text \<open>
  Claim C1, as the code has it. The initial snow height of \<open>init_snowpack\<close> is the
  configured constant \<open>initial_snowheight_constant\<close> when the forcing record has no
  snow-height field, it is 0 when the field is present and not-a-number, and it is the
  field's value otherwise. The configured constant is the default of the absent field
  only.
\<close>

theorem initial_snowheight_by_case:
  "(SNOWHEIGHT DATA = None \<longrightarrow> initial_snowheight c DATA = initial_snowheight_constant c) \<and>
   (SNOWHEIGHT DATA = Some NaN \<longrightarrow> initial_snowheight c DATA = 0) \<and>
   (\<forall>x. SNOWHEIGHT DATA = Some (Val x) \<longrightarrow> initial_snowheight c DATA = x)"
  by (simp add: initial_snowheight_def)

theorem initial_snowheight_by_case_witness:
  "SNOWHEIGHT forcing_without_snowheight = None \<and>
   initial_snowheight sample_constants forcing_without_snowheight = 0.2 \<and>
   SNOWHEIGHT forcing_nan_snowheight = Some NaN \<and>
   initial_snowheight sample_constants forcing_nan_snowheight = 0 \<and>
   SNOWHEIGHT forcing_measured_snowheight = Some (Val 0.35) \<and>
   initial_snowheight sample_constants forcing_measured_snowheight = 0.35"
proof -
  have absent: "SNOWHEIGHT forcing_without_snowheight = None"
    and nan: "SNOWHEIGHT forcing_nan_snowheight = Some NaN"
    and measured: "SNOWHEIGHT forcing_measured_snowheight = Some (Val 0.35)"
    by (simp_all add: forcing_without_snowheight_def forcing_nan_snowheight_def
          forcing_measured_snowheight_def)
  have default: "initial_snowheight_constant sample_constants = 0.2"
    by (simp add: sample_constants_def)
  from initial_snowheight_by_case [of forcing_without_snowheight sample_constants] absent
  have 1: "initial_snowheight sample_constants forcing_without_snowheight =
             initial_snowheight_constant sample_constants"
    by blast
  from initial_snowheight_by_case [of forcing_nan_snowheight sample_constants] nan
  have 2: "initial_snowheight sample_constants forcing_nan_snowheight = 0"
    by blast
  from initial_snowheight_by_case [of forcing_measured_snowheight sample_constants] measured
  have 3: "initial_snowheight sample_constants forcing_measured_snowheight = 0.35"
    by blast
  from absent nan measured 1 2 3 show ?thesis
    by (simp only: default simp_thms)
qed

text \<open>
  Claim C1 as stated fails: with a configured default of 0.2, a record whose snow height
  is not-a-number starts from 0, which is neither the configured constant nor what the
  record without the field starts from. The columns differ accordingly: four ice layers
  in the first case, two snow layers above them in the second.
\<close>

theorem nan_snowheight_not_configured_default:
  "SNOWHEIGHT forcing_nan_snowheight = Some NaN \<and>
   initial_snowheight sample_constants forcing_nan_snowheight = 0 \<and>
   initial_snowheight sample_constants forcing_nan_snowheight
     \<noteq> initial_snowheight_constant sample_constants \<and>
   initial_snowheight sample_constants forcing_nan_snowheight
     \<noteq> initial_snowheight sample_constants forcing_without_snowheight \<and>
   map_sum id (\<lambda>GRID. length (layer_heights GRID))
     (init_snowpack sample_float_div sample_constants forcing_nan_snowheight) = Inr 4 \<and>
   map_sum id (\<lambda>GRID. length (layer_heights GRID))
     (init_snowpack sample_float_div sample_constants forcing_without_snowheight) = Inr 6"
  by (simp add: init_snowpack_def initial_snowheight_def forcing_nan_snowheight_def
        forcing_without_snowheight_def sample_constants_def temperature_top_def and_then_def
        glacier_layer_count_def float_truediv_def sample_float_div_def py_int_def np_ones_def
        snow_section_def Let_def Grid_def py_last_def upto.simps)

section \<open>Loading a restart record\<close>

text \<open>
  Claim C2, as the code has it. Let the layer count of a restart record be a number, and
  let the restored temperatures be the entries of the temperature array that the slice
  up to the layer count keeps. If one of the restored temperatures is not-a-number,
  \<open>load_snowpack\<close> emits the state of the grid it has built and ends the process with
  exit status 1, returning no grid. If none is, it returns the grid built from the
  sliced arrays and the three trackers, and emits nothing.
\<close>

theorem load_snowpack_checks_restored_temperatures:
  assumes "NLAYERS GRID_RESTART = Val n"
  shows "let k = py_int n;
             GRID = Grid (py_slice_to k (LAYER_HEIGHT GRID_RESTART))
                      (py_slice_to k (LAYER_RHO GRID_RESTART))
                      (py_slice_to k (LAYER_T GRID_RESTART))
                      (py_slice_to k (LAYER_LWC GRID_RESTART))
                      (Some (py_slice_to k (LAYER_IF GRID_RESTART)))
                      (Some (restart_new_snow_height GRID_RESTART))
                      (Some (restart_new_snow_timestamp GRID_RESTART))
                      (Some (restart_old_snow_timestamp GRID_RESTART))
         in (list_ex isnan (py_slice_to k (LAYER_T GRID_RESTART)) \<longrightarrow>
               load_snowpack GRID_RESTART = ([Grid_info_screen GRID], Inl (SystemExit 1))) \<and>
            (\<not> list_ex isnan (py_slice_to k (LAYER_T GRID_RESTART)) \<longrightarrow>
               load_snowpack GRID_RESTART = ([], Inr GRID))"
  using assms by (simp add: load_snowpack_def py_int_of_def Let_def)

theorem load_snowpack_checks_restored_temperatures_witness:
  "load_snowpack restart_corrupt =
     ([Grid_info_screen
        (Grid [Val 0.5, NaN] [Val 917, NaN] [Val 270, NaN] [Val 0, NaN] (Some [Val 1, NaN])
           (Some (Val 0)) (Some (Val 0)) (Some (Val 0)))],
      Inl (SystemExit 1)) \<and>
   load_snowpack restart_padded =
     ([], Inr (Grid [Val 0.5] [Val 917] [Val 270] [Val 0] (Some [Val 1])
                (Some (Val 0)) (Some (Val 0)) (Some (Val 0))))"
  using load_snowpack_checks_restored_temperatures [of restart_corrupt 2]
        load_snowpack_checks_restored_temperatures [of restart_padded 1]
  by (simp add: restart_corrupt_def restart_padded_def py_int_def py_slice_to_def Let_def)

text \<open>
  Claim C2 as stated fails: the temperature array of \<open>restart_padded\<close> contains
  not-a-number, in the slot beyond its single layer, and \<open>load_snowpack\<close> returns a grid
  all the same.
\<close>

theorem nan_beyond_layer_count_is_restored:
  "list_ex isnan (LAYER_T restart_padded) \<and>
   load_snowpack restart_padded =
     ([], Inr (Grid [Val 0.5] [Val 917] [Val 270] [Val 0] (Some [Val 1])
                (Some (Val 0)) (Some (Val 0)) (Some (Val 0))))"
  by (simp add: load_snowpack_def restart_padded_def py_int_of_def py_int_def
        py_slice_to_def Let_def)

section \<open>Bougamont albedo\<close>

text \<open>
  Claim C3. Let the fresh-snow timestamp of the grid be zero and the density of the top
  layer be at most the snow/ice threshold. Then, for every prior \<open>albedo_snow\<close> and every
  surface temperature at which the two divisions of the method are defined (a non-zero
  decay timescale, a non-zero \<open>albedo_mod_snow_depth\<close>), \<open>method_Bougamont\<close> returns
  \<open>albedo_fresh_snow\<close> as the updated \<open>albedo_snow\<close>, and the surface albedo is that value
  modulated by the snow depth.
\<close>

theorem method_Bougamont_resets_on_snowfall:
  assumes "new_snow_timestamp GRID = 0"
    and "node_density_0 GRID \<le> snow_ice_threshold c"
    and "t_star c surface_temperature \<noteq> 0"
    and "albedo_mod_snow_depth c \<noteq> 0"
  shows "method_Bougamont c GRID surface_temperature albedo_snow =
           Inr (albedo_fresh_snow c + (albedo_ice c - albedo_fresh_snow c)
                  * exp (- 1.0 * total_snowheight GRID / (albedo_mod_snow_depth c / 100.0)),
                albedo_fresh_snow c)"
  using assms
  by (simp add: method_Bougamont_def get_fresh_snow_props_def py_div_nonzero and_then_Inr
        snow_depth_factor_nonzero Let_def)

text \<open>
  With the sample constants the timescale is never zero, so the reset holds there for
  all prior values and all temperatures.
\<close>

theorem method_Bougamont_resets_on_snowfall_witness:
  "new_snow_timestamp snow_mesh = 0 \<and>
   node_density_0 snow_mesh \<le> snow_ice_threshold sample_constants \<and>
   (\<forall>surface_temperature albedo_snow.
      map_sum id snd (method_Bougamont sample_constants snow_mesh surface_temperature albedo_snow)
        = Inr 0.85)"
proof -
  have d: "albedo_mod_snow_depth sample_constants \<noteq> 0"
    by (simp add: sample_constants_def)
  have g: "new_snow_timestamp snow_mesh = 0"
    "node_density_0 snow_mesh \<le> snow_ice_threshold sample_constants"
    by (simp_all add: snow_mesh_def sample_constants_def)
  have "map_sum id snd (method_Bougamont sample_constants snow_mesh T a) = Inr 0.85" for T a
  proof -
    have "t_star sample_constants T \<noteq> 0"
      using sample_t_star_positive [of T] by simp
    from method_Bougamont_resets_on_snowfall [OF g this d, of a]
    show ?thesis by (simp add: sample_constants_def)
  qed
  with g show ?thesis by simp
qed

text \<open>
  Claim C10. When the density of the top layer exceeds the snow/ice threshold,
  \<open>method_Bougamont\<close> returns \<open>albedo_ice\<close> as the surface albedo and hands \<open>albedo_snow\<close>
  back as it received it, whatever the surface temperature and the fresh-snow
  timestamp: neither the decay nor the reset is applied.
\<close>

theorem method_Bougamont_on_ice:
  assumes "snow_ice_threshold c < node_density_0 GRID"
  shows "method_Bougamont c GRID surface_temperature albedo_snow =
           Inr (albedo_ice c, albedo_snow)"
  using assms by (simp add: method_Bougamont_def get_fresh_snow_props_def Let_def)

theorem method_Bougamont_on_ice_witness:
  "snow_ice_threshold sample_constants < node_density_0 ice_mesh \<and>
   method_Bougamont sample_constants ice_mesh 270 0.7 = Inr (0.3, 0.7) \<and>
   method_Bougamont sample_constants (ice_mesh\<lparr>new_snow_timestamp := 0\<rparr>) 270 0.7
     = Inr (0.3, 0.7)"
  using method_Bougamont_on_ice [of sample_constants ice_mesh 270 "0.7"]
        method_Bougamont_on_ice [of sample_constants "ice_mesh\<lparr>new_snow_timestamp := 0\<rparr>" 270 "0.7"]
  by (simp add: sample_constants_def ice_mesh_def)

section \<open>Hours since snowfall\<close>

text \<open>
  Claim C4. \<open>get_surface_properties\<close> returns the fresh-snow height, the fresh-snow
  timestamp and the hours computed from that timestamp, and leaves the grid as it
  is, except when the fresh-snow height is at most 0 and the timestamp, in hours, is
  below \<open>albedo_mod_snow_aging\<close> times 24. In that case it sets the fresh-snow trackers
  to the old ones, so that the fresh-snow timestamp becomes the older snow timestamp,
  and returns that timestamp and the hours computed from it.
\<close>

theorem get_surface_properties_cases:
  "(new_snow_height GRID \<le> 0 \<and>
      new_snow_timestamp GRID / 3600 < albedo_mod_snow_aging c * 24 \<longrightarrow>
      get_surface_properties c GRID =
        ((new_snow_height GRID, old_snow_timestamp GRID, old_snow_timestamp GRID / 3600),
         set_fresh_snow_props_to_old_props GRID) \<and>
      set_fresh_snow_props_to_old_props GRID
        = GRID\<lparr>new_snow_timestamp := old_snow_timestamp GRID\<rparr>) \<and>
   (\<not> (new_snow_height GRID \<le> 0 \<and>
        new_snow_timestamp GRID / 3600 < albedo_mod_snow_aging c * 24) \<longrightarrow>
      get_surface_properties c GRID =
        ((new_snow_height GRID, new_snow_timestamp GRID, new_snow_timestamp GRID / 3600),
         GRID))"
  by (simp add: get_surface_properties_def get_fresh_snow_props_def
        set_fresh_snow_props_to_old_props_def Let_def)

text \<open>
  Fresh snow gone after two hours, within the window of 528 hours: the age of the older
  snow, ten hours, is returned. Snow present, and bare ice beyond the window: the
  fresh-snow age is returned and the mesh is untouched.
\<close>

theorem get_surface_properties_cases_witness:
  "get_surface_properties sample_constants consumed_snow_mesh =
     ((0, 36000, 10), consumed_snow_mesh\<lparr>new_snow_timestamp := 36000\<rparr>) \<and>
   get_surface_properties sample_constants snow_mesh = ((0.1, 0, 0), snow_mesh) \<and>
   get_surface_properties sample_constants ice_mesh = ((0, 3600000, 1000), ice_mesh)"
  using get_surface_properties_cases [of consumed_snow_mesh sample_constants]
        get_surface_properties_cases [of snow_mesh sample_constants]
        get_surface_properties_cases [of ice_mesh sample_constants]
  by (simp add: sample_constants_def consumed_snow_mesh_def snow_mesh_def ice_mesh_def)

section \<open>Choice of the albedo method\<close>

text \<open>
  Claim C5. When \<open>use_debris\<close> is set, \<open>updateAlbedo\<close> returns the albedo of
  \<open>method_lejeune\<close> (with \<open>albedo_snow\<close> passed through, and the failure of the method if it
  fails), and the configured \<open>albedo_method\<close> has no influence on the result.
\<close>

theorem updateAlbedo_debris_overrides_method:
  assumes "use_debris c"
  shows "updateAlbedo c GRID surface_temperature albedo_snow =
           (case method_lejeune c GRID of
              (Inl e, GRID') \<Rightarrow> (Inl e, GRID')
            | (Inr alphaMod, GRID') \<Rightarrow> (Inr (alphaMod, albedo_snow), GRID')) \<and>
         (\<forall>m. updateAlbedo (c\<lparr>albedo_method := m\<rparr>) GRID surface_temperature albedo_snow =
                updateAlbedo c GRID surface_temperature albedo_snow)"
  using assms by (simp add: updateAlbedo_def method_lejeune_ignores_method)

theorem updateAlbedo_debris_overrides_method_witness:
  "use_debris debris_constants \<and> albedo_method debris_constants = ''Oerlemans98'' \<and>
   updateAlbedo debris_constants ice_mesh 270 0.7 = (Inr (0.2, 0.7), ice_mesh) \<and>
   updateAlbedo (debris_constants\<lparr>albedo_method := ''Bougamont05''\<rparr>) ice_mesh 270 0.7
     = (Inr (0.2, 0.7), ice_mesh)"
proof -
  have d: "use_debris debris_constants"
    and m: "albedo_method debris_constants = ''Oerlemans98''"
    by (simp_all add: debris_constants_def sample_constants_def)
  have l: "method_lejeune debris_constants ice_mesh = (Inr 0.2, ice_mesh)"
    by (simp add: method_lejeune_def ice_mesh_def debris_constants_def sample_constants_def)
  note th = updateAlbedo_debris_overrides_method [OF d, of ice_mesh 270 "0.7"]
  from th have 1: "updateAlbedo debris_constants ice_mesh 270 0.7 = (Inr (0.2, 0.7), ice_mesh)"
    by (simp add: l)
  from th have "updateAlbedo (debris_constants\<lparr>albedo_method := ''Bougamont05''\<rparr>) ice_mesh 270 0.7
      = updateAlbedo debris_constants ice_mesh 270 0.7"
    by blast
  with 1 d m show ?thesis by simp
qed

text \<open>
  Claim C6, as the code has it. When \<open>use_debris\<close> is off and \<open>albedo_method\<close> is none of
  Oerlemans98, Bougamont05 and Lejeune13, every call of \<open>updateAlbedo\<close> raises the
  \<open>ValueError\<close> that names the method and the three allowed ones; it produces no albedo
  and leaves the grid as it is. The error is raised by the call itself, for whatever
  grid, surface temperature and \<open>albedo_snow\<close> it is given.
\<close>

theorem updateAlbedo_rejects_unknown_method:
  assumes "\<not> use_debris c"
    and "albedo_method c \<notin> {''Oerlemans98'', ''Bougamont05'', ''Lejeune13''}"
  shows "updateAlbedo c GRID surface_temperature albedo_snow =
           (Inl (ValueError (albedo_error_message c)), GRID)"
  using assms by (simp add: updateAlbedo_def)

theorem updateAlbedo_rejects_unknown_method_witness:
  "\<not> use_debris misspelt_constants \<and>
   albedo_method misspelt_constants \<notin> {''Oerlemans98'', ''Bougamont05'', ''Lejeune13''} \<and>
   updateAlbedo misspelt_constants ice_mesh 265 0.6 =
     (Inl (ValueError (albedo_error_message misspelt_constants)), ice_mesh)"
  using updateAlbedo_rejects_unknown_method [of misspelt_constants ice_mesh 265 "0.6"]
  by (simp add: misspelt_constants_def sample_constants_def)

text \<open>
  Claim C6 as stated fails in its last part, that the failure is not raised per
  timestep: \<open>updateAlbedo\<close> is the function called in each timestep, and with the method
  name misspelt as \<open>Oerlemans\<close> the call for a snow-covered grid at 270 K ends in the
  error.
\<close>

theorem unknown_method_raised_in_timestep_call:
  "fst (updateAlbedo misspelt_constants snow_mesh 270 0.7) =
     Inl (ValueError (''Albedo method = '' @ [CHR 0x22] @ ''Oerlemans'' @ [CHR 0x22] @
            '' is not allowed, must be one of Oerlemans98, Bougamont05, Lejeune13''))"
  by (simp add: updateAlbedo_def misspelt_constants_def sample_constants_def
        albedo_error_message_def)

section \<open>Ice-only initial column\<close>

text \<open>
  Claim C7. Let the forcing record yield the initial snow height 0 and hold a first
  temperature, let \<open>initial_glacier_layer_heights\<close> be non-zero and the layer count
  \<open>int(initial_glacier_height / initial_glacier_layer_heights)\<close>, taken of the float
  quotient, be non-negative. Then, whatever the float division is, \<open>init_snowpack\<close>
  returns a grid with exactly that many layers. Every layer has the height
  \<open>initial_glacier_layer_heights\<close>, the density \<open>ice_density\<close> and the liquid water
  content 0; the total height is the layer count times the layer height; and no
  layer is snow, provided that \<open>ice_density\<close> lies above the snow/ice threshold.
\<close>

theorem init_snowpack_ice_only:
  assumes "initial_snowheight c DATA = 0"
    and "T2 DATA \<noteq> []"
    and "initial_glacier_layer_heights c \<noteq> 0"
    and "0 \<le> py_int (float_div (initial_glacier_height c) (initial_glacier_layer_heights c))"
  shows "let n = nat (py_int
                   (float_div (initial_glacier_height c) (initial_glacier_layer_heights c)))
         in \<exists>GRID. init_snowpack float_div c DATA = Inr GRID \<and>
              int (length (layer_heights GRID)) =
                py_int (float_div (initial_glacier_height c) (initial_glacier_layer_heights c)) \<and>
              layer_heights GRID = replicate n (Val (initial_glacier_layer_heights c)) \<and>
              layer_densities GRID = replicate n (Val (ice_density c)) \<and>
              layer_liquid_water_content GRID = replicate n (Val 0) \<and>
              length (layer_temperatures GRID) = n \<and>
              total_height GRID = Val (real n * initial_glacier_layer_heights c) \<and>
              (snow_ice_threshold c < ice_density c \<longrightarrow> snow_layer_count c GRID = 0)"
proof -
  define k where
    "k = py_int (float_div (initial_glacier_height c) (initial_glacier_layer_heights c))"
  have cnt: "glacier_layer_count float_div c = Inr k"
    using assms(3) by (simp add: glacier_layer_count_def float_truediv_def and_then_Inr k_def)
  have ones: "np_ones k = Inr (replicate (nat k) 1)"
    using assms(4) by (simp add: np_ones_nonneg k_def)
  have len: "length [1..k] = nat k"
    by simp
  have nonneg: "0 \<le> k"
    using assms(4) by (simp add: k_def)
  show ?thesis
    using assms(1) len nonneg
    by (simp add: init_snowpack_def temperature_top_nonempty [OF assms(2)] and_then_Inr
          cnt ones Let_def Grid_def total_height_def snow_layer_count_def np_sum_replicate
          filter_replicate_none flip: k_def)
qed

text \<open>
  A glacier of height 2.0 in layers of 0.5 gives four layers. A glacier of height 0.3
  in layers of 0.1 gives two layers and the total height 0.2, not three: the float
  quotient lies just below 3.
\<close>

theorem init_snowpack_ice_only_witness:
  "initial_snowheight sample_constants forcing_no_snow = 0 \<and>
   (\<exists>GRID. init_snowpack sample_float_div sample_constants forcing_no_snow = Inr GRID \<and>
      layer_heights GRID = [Val 0.5, Val 0.5, Val 0.5, Val 0.5] \<and>
      layer_densities GRID = [Val 917, Val 917, Val 917, Val 917] \<and>
      layer_liquid_water_content GRID = [Val 0, Val 0, Val 0, Val 0] \<and>
      length (layer_temperatures GRID) = 4 \<and>
      total_height GRID = Val 2 \<and>
      snow_layer_count sample_constants GRID = 0) \<and>
   initial_snowheight thin_glacier_constants forcing_no_snow = 0 \<and>
   (\<exists>GRID. init_snowpack sample_float_div thin_glacier_constants forcing_no_snow = Inr GRID \<and>
      layer_heights GRID = [Val 0.1, Val 0.1] \<and>
      layer_densities GRID = [Val 917, Val 917] \<and>
      layer_liquid_water_content GRID = [Val 0, Val 0] \<and>
      length (layer_temperatures GRID) = 2 \<and>
      total_height GRID = Val 0.2 \<and>
      snow_layer_count thin_glacier_constants GRID = 0)"
proof -
  have t: "T2 forcing_no_snow \<noteq> []"
    by (simp add: forcing_no_snow_def)
  have q: "py_int (sample_float_div (initial_glacier_height sample_constants)
              (initial_glacier_layer_heights sample_constants)) = 4"
    by (simp add: py_int_def sample_float_div_def sample_constants_def)
  have r: "replicate 4 x = [x, x, x, x]" for x :: fval
    by (simp add: numeral_eq_Suc)
  have h: "initial_snowheight sample_constants forcing_no_snow = 0"
    by (simp add: initial_snowheight_def forcing_no_snow_def)
  have l: "initial_glacier_layer_heights sample_constants \<noteq> 0"
    by (simp add: sample_constants_def)
  have n: "0 \<le> py_int (sample_float_div (initial_glacier_height sample_constants)
              (initial_glacier_layer_heights sample_constants))"
    by (simp add: q)
  have c: "initial_glacier_layer_heights sample_constants = 0.5"
    "ice_density sample_constants = 917" "snow_ice_threshold sample_constants = 900"
    by (simp_all add: sample_constants_def)
  note ice_only = init_snowpack_ice_only
    [where float_div = sample_float_div, OF h t l n, unfolded q Let_def]
  then have thick:
    "\<exists>GRID. init_snowpack sample_float_div sample_constants forcing_no_snow = Inr GRID \<and>
      layer_heights GRID = [Val 0.5, Val 0.5, Val 0.5, Val 0.5] \<and>
      layer_densities GRID = [Val 917, Val 917, Val 917, Val 917] \<and>
      layer_liquid_water_content GRID = [Val 0, Val 0, Val 0, Val 0] \<and>
      length (layer_temperatures GRID) = 4 \<and>
      total_height GRID = Val 2 \<and>
      snow_layer_count sample_constants GRID = 0"
    by (auto simp add: r c)
  have q': "py_int (sample_float_div (initial_glacier_height thin_glacier_constants)
              (initial_glacier_layer_heights thin_glacier_constants)) = 2"
    by (simp add: py_int_def sample_float_div_def thin_glacier_constants_def)
  have r': "replicate 2 x = [x, x]" for x :: fval
    by (simp add: numeral_eq_Suc)
  have h': "initial_snowheight thin_glacier_constants forcing_no_snow = 0"
    by (simp add: initial_snowheight_def forcing_no_snow_def)
  have l': "initial_glacier_layer_heights thin_glacier_constants \<noteq> 0"
    by (simp add: thin_glacier_constants_def)
  have n': "0 \<le> py_int (sample_float_div (initial_glacier_height thin_glacier_constants)
              (initial_glacier_layer_heights thin_glacier_constants))"
    by (simp add: q')
  have c': "initial_glacier_layer_heights thin_glacier_constants = 0.1"
    "ice_density thin_glacier_constants = 917"
    "snow_ice_threshold thin_glacier_constants = 900"
    by (simp_all add: thin_glacier_constants_def sample_constants_def)
  note thin_ice_only = init_snowpack_ice_only
    [where float_div = sample_float_div, OF h' t l' n', unfolded q' Let_def]
  then have thin:
    "\<exists>GRID. init_snowpack sample_float_div thin_glacier_constants forcing_no_snow = Inr GRID \<and>
      layer_heights GRID = [Val 0.1, Val 0.1] \<and>
      layer_densities GRID = [Val 917, Val 917] \<and>
      layer_liquid_water_content GRID = [Val 0, Val 0] \<and>
      length (layer_temperatures GRID) = 2 \<and>
      total_height GRID = Val 0.2 \<and>
      snow_layer_count thin_glacier_constants GRID = 0"
    by (auto simp add: r' c')
  from h thick h' thin show ?thesis
    by (intro conjI)
qed

section \<open>Lejeune albedo without fresh snow\<close>

text \<open>
  Claim C8. Let the top layer of the grid be of node type 0 and the fresh-snow height be
  0, and let the configuration allow the computation: a non-zero critical snowpack
  thickness, a positive weighting exponent, a non-zero ageing constant. Then the
  fresh-snow height that \<open>method_lejeune\<close> obtains is 0, the weight
  \<open>min(1, (0 / critical_snowpack_thickness) ** exponent)\<close> is 0, and the method returns
  exactly \<open>albedo_debris\<close>.
\<close>

theorem method_lejeune_without_fresh_snow:
  assumes "node_ntype_0 GRID = 0"
    and "new_snow_height GRID = 0"
    and "critical_snowpack_thickness c \<noteq> 0"
    and "0 < lejeune_weighting_coefficient c"
    and "albedo_mod_snow_aging c \<noteq> 0"
  shows "fst (fst (get_surface_properties c GRID)) = 0 \<and>
         get_albedo_weight_lejeune c 0 = Inr 0 \<and>
         fst (method_lejeune c GRID) = Inr (albedo_debris c)"
proof -
  have h: "fst (fst (get_surface_properties c GRID)) = 0"
    using assms(2)
    by (simp add: get_surface_properties_def get_fresh_snow_props_def
          set_fresh_snow_props_to_old_props_def Let_def)
  have w: "get_albedo_weight_lejeune c 0 = Inr 0"
    using assms(3,4)
    by (simp add: get_albedo_weight_lejeune_def py_div_nonzero and_then_Inr py_pow_def)
  have s: "\<exists>v. get_simple_albedo c t = Inr v" for t
    using assms(5) by (simp add: get_simple_albedo_def py_div_nonzero and_then_Inr)
  obtain p GRID' where p: "get_surface_properties c GRID = (p, GRID')"
    by (cases "get_surface_properties c GRID")
  obtain a b t where abt: "p = (a, b, t)"
    by (cases p)
  from h p abt have a: "a = 0" by simp
  obtain v where v: "get_simple_albedo c t = Inr v"
    using s by blast
  have "fst (method_lejeune c GRID) = Inr (albedo_debris c)"
    using assms(1) by (simp add: method_lejeune_def p abt a w v and_then_Inr)
  with h w show ?thesis by simp
qed

theorem method_lejeune_without_fresh_snow_witness:
  "node_ntype_0 consumed_snow_mesh = 0 \<and> new_snow_height consumed_snow_mesh = 0 \<and>
   get_albedo_weight_lejeune sample_constants 0 = Inr 0 \<and>
   fst (method_lejeune sample_constants consumed_snow_mesh) = Inr 0.2"
  using method_lejeune_without_fresh_snow [of consumed_snow_mesh sample_constants]
  by (simp add: sample_constants_def consumed_snow_mesh_def)

section \<open>Irreducible water content\<close>

text \<open>
  Claim C9, as the code has it. For every ice fraction \<open>\<phi>\<close> with \<open>0 < \<phi> \<le> 1\<close> the
  reference for a layer's irreducible water content is
  \<open>0.0264 + 0.0099 (1 - \<phi>) / \<phi>\<close> for \<open>\<phi> \<le> 0.23\<close>,
  \<open>0.08 - 0.1023 (\<phi> - 0.03)\<close> for \<open>0.23 < \<phi> \<le> 0.812\<close>, and 0 above \<open>0.812\<close>. It is
  a straight line in the ice fraction on the second and the third of these pieces.
\<close>

theorem irreducible_water_content_by_piece:
  assumes "0 < \<phi>" and "\<phi> \<le> 1"
  shows "calculate_irreducible_water_content \<phi> =
           Inr (if \<phi> \<le> 0.23 then 0.0264 + 0.0099 * ((1 - \<phi>) / \<phi>)
                else if \<phi> \<le> 0.812 then 0.08 - 0.1023 * (\<phi> - 0.03)
                else 0) \<and>
         affine_on (\<lambda>x. value_of (calculate_irreducible_water_content x))
           {x. 0.23 < x \<and> x \<le> 0.812} \<and>
         affine_on (\<lambda>x. value_of (calculate_irreducible_water_content x))
           {x. 0.812 < x \<and> x \<le> 1}"
proof -
  have 1: "calculate_irreducible_water_content \<phi> =
           Inr (if \<phi> \<le> 0.23 then 0.0264 + 0.0099 * ((1 - \<phi>) / \<phi>)
                else if \<phi> \<le> 0.812 then 0.08 - 0.1023 * (\<phi> - 0.03)
                else 0)"
    using assms
    by (simp add: calculate_irreducible_water_content_def py_div_nonzero and_then_Inr)
  have 2: "affine_on (\<lambda>x. value_of (calculate_irreducible_water_content x))
           {x. 0.23 < x \<and> x \<le> 0.812}"
    unfolding affine_on_def
    by (rule exI [of _ "- 0.1023"], rule exI [of _ "0.08 + 0.1023 * 0.03"])
       (simp add: calculate_irreducible_water_content_def value_of_def algebra_simps
          diff_divide_distrib)
  have 3: "affine_on (\<lambda>x. value_of (calculate_irreducible_water_content x))
           {x. 0.812 < x \<and> x \<le> 1}"
    unfolding affine_on_def
    by (rule exI [of _ 0], rule exI [of _ 0])
       (simp add: calculate_irreducible_water_content_def value_of_def)
  from 1 2 3 show ?thesis by simp
qed

text \<open>The three ice fractions of the test, one on each piece.\<close>

theorem irreducible_water_content_by_piece_witness:
  "calculate_irreducible_water_content 0.2 = Inr 0.066 \<and>
   calculate_irreducible_water_content 0.5 = Inr 0.031919 \<and>
   calculate_irreducible_water_content 0.9 = Inr 0"
  using irreducible_water_content_by_piece [of "0.2"]
        irreducible_water_content_by_piece [of "0.5"]
        irreducible_water_content_by_piece [of "0.9"]
  by simp

text \<open>
  Claim C9 as stated fails in calling the function piecewise linear: below the first
  breakpoint it is no straight line. At the ice fractions 0.1, 0.15 and 0.2 it takes
  the values 0.1155, 0.0825 and 0.066, and the middle one is not the mean of the other
  two.
\<close>

theorem irreducible_water_content_bends_below_first_breakpoint:
  "calculate_irreducible_water_content 0.1 = Inr 0.1155 \<and>
   calculate_irreducible_water_content 0.15 = Inr 0.0825 \<and>
   calculate_irreducible_water_content 0.2 = Inr 0.066 \<and>
   (0.0825::real) \<noteq> (0.1155 + 0.066) / 2 \<and>
   \<not> affine_on (\<lambda>x. value_of (calculate_irreducible_water_content x))
       {x. 0 < x \<and> x \<le> 0.23}"
proof -
  have v: "calculate_irreducible_water_content 0.1 = Inr 0.1155"
    "calculate_irreducible_water_content 0.15 = Inr 0.0825"
    "calculate_irreducible_water_content 0.2 = Inr 0.066"
    by (simp_all add: calculate_irreducible_water_content_def py_div_def and_then_def)
  have "\<not> affine_on (\<lambda>x. value_of (calculate_irreducible_water_content x))
       {x. 0 < x \<and> x \<le> 0.23}"
  proof
    assume "affine_on (\<lambda>x. value_of (calculate_irreducible_water_content x))
       {x. 0 < x \<and> x \<le> 0.23}"
    then obtain a b :: real where
      ab: "\<forall>x \<in> {x. 0 < x \<and> x \<le> 0.23}.
             value_of (calculate_irreducible_water_content x) = a * x + b"
      unfolding affine_on_def by blast
    have "(0.1::real) \<in> {x. 0 < x \<and> x \<le> 0.23}" "(0.15::real) \<in> {x. 0 < x \<and> x \<le> 0.23}"
      "(0.2::real) \<in> {x. 0 < x \<and> x \<le> 0.23}"
      by simp_all
    with ab have "value_of (calculate_irreducible_water_content 0.1) = a * 0.1 + b"
      "value_of (calculate_irreducible_water_content 0.15) = a * 0.15 + b"
      "value_of (calculate_irreducible_water_content 0.2) = a * 0.2 + b"
      by blast+
    then have "0.1155 = a * 0.1 + b" "0.0825 = a * 0.15 + b" "0.066 = a * 0.2 + b"
      unfolding v value_of_def by simp_all
    then show False by simp
  qed
  with v show ?thesis by simp
qed

end
